theory Spec2Isabelle
  imports Complex_Main "HOL-Library.Multiset"
begin

section \<open>Data model: the loaded table\<close>

text \<open>
  The script \<^verbatim>\<open>dataset.py\<close> loads one table with \<^verbatim>\<open>pd.read_csv\<close> and then works
  on the data frame \<^verbatim>\<open>df\<close>. A column of the frame is a typed array; the type of the
  array is its dtype. The dtypes below are the ones the script distinguishes:
  \<^verbatim>\<open>int64\<close>, \<^verbatim>\<open>float64\<close>, \<^verbatim>\<open>bool\<close> and \<^verbatim>\<open>object\<close> are what \<^verbatim>\<open>read_csv\<close> infers,
  \<^verbatim>\<open>datetime64\<close> is what the time-series section looks for.

  A float64 cell is modelled as an exact real, with \<open>None\<close> for NaN (the missing
  value); rounding of the binary representation is not modelled. A missing cell of an
  object or datetime column is \<open>None\<close> as well. An int64 or bool array has no missing
  cells. A timestamp is an integer (nanoseconds since the epoch).
\<close>

datatype series =
    Int64 "int list"
  | Float64 "real option list"
  | Bool "bool list"
  | Object "string option list"
  | Datetime64 "int option list"

datatype dtype = Dt_int64 | Dt_float64 | Dt_bool | Dt_object | Dt_datetime64

fun dtype_of :: "series \<Rightarrow> dtype" where
  "dtype_of (Int64 _) = Dt_int64"
| "dtype_of (Float64 _) = Dt_float64"
| "dtype_of (Bool _) = Dt_bool"
| "dtype_of (Object _) = Dt_object"
| "dtype_of (Datetime64 _) = Dt_datetime64"

fun len_series :: "series \<Rightarrow> nat" where
  "len_series (Int64 xs) = length xs"
| "len_series (Float64 xs) = length xs"
| "len_series (Bool xs) = length xs"
| "len_series (Object xs) = length xs"
| "len_series (Datetime64 xs) = length xs"

text \<open>
  The frame is the ordered list of its named columns. \<^verbatim>\<open>len(df)\<close> is the number of
  rows; all columns of a frame have that many cells.
\<close>

type_synonym dataframe = "(string \<times> series) list"

definition len_df :: "dataframe \<Rightarrow> nat" where
  "len_df df = (case df of [] \<Rightarrow> 0 | (_, s) # _ \<Rightarrow> len_series s)"

definition columns :: "dataframe \<Rightarrow> string list" where
  "columns df = map fst df"

definition wf_df :: "dataframe \<Rightarrow> bool" where
  "wf_df df \<longleftrightarrow> distinct (columns df) \<and> list_all (\<lambda>(_, s). len_series s = len_df df) df"

text \<open>Exceptions of the Python run time and of the libraries, with their \<^verbatim>\<open>str\<close>.\<close>

datatype exn =
    KeyError string
  | TypeError string
  | ZeroDivisionError
  | LibraryError string


text \<open>\<^verbatim>\<open>df[col]\<close>: the column of that name, \<^verbatim>\<open>KeyError\<close> when there is none; the
  exception's \<^verbatim>\<open>str\<close> is the \<^verbatim>\<open>repr\<close> of the key (a name in quotes, or \<^verbatim>\<open>None\<close>).
  The widget that supplies \<^verbatim>\<open>col\<close> returns \<^verbatim>\<open>None\<close> on an empty option list.\<close>

definition getitem :: "dataframe \<Rightarrow> string option \<Rightarrow> exn + series" where
  "getitem df col =
     (case col of
        None \<Rightarrow> Inl (KeyError ''None'')
      | Some c \<Rightarrow> (case map_of df c of
                    None \<Rightarrow> Inl (KeyError (CHR 0x27 # c @ [CHR 0x27]))
                  | Some s \<Rightarrow> Inr s))"

section \<open>Column classes\<close>

text \<open>
  The script never classifies a column by parsing its cells. It asks pandas for the
  columns of a dtype class, in three places:
  \<^verbatim>\<open>df.select_dtypes(include='number')\<close>, \<^verbatim>\<open>df.select_dtypes(include='object')\<close> and
  \<^verbatim>\<open>df.select_dtypes(include=['datetime'])\<close>; and it asks
  \<^verbatim>\<open>pd.api.types.is_numeric_dtype\<close> for the analysis dispatch.
  In pandas, \<^verbatim>\<open>'number'\<close> is \<^verbatim>\<open>np.number\<close> (integers and floats, not \<^verbatim>\<open>bool\<close>),
  while \<^verbatim>\<open>is_numeric_dtype\<close> accepts \<^verbatim>\<open>np.number\<close> and \<^verbatim>\<open>np.bool_\<close>.
\<close>

datatype dtype_class = Number | ObjectClass | Datetime

fun in_class :: "dtype_class \<Rightarrow> dtype \<Rightarrow> bool" where
  "in_class Number d = (d = Dt_int64 \<or> d = Dt_float64)"
| "in_class ObjectClass d = (d = Dt_object)"
| "in_class Datetime d = (d = Dt_datetime64)"

definition select_dtypes :: "dtype_class \<Rightarrow> dataframe \<Rightarrow> dataframe" where
  "select_dtypes c df = filter (\<lambda>(_, s). in_class c (dtype_of s)) df"

fun is_numeric_dtype :: "dtype \<Rightarrow> bool" where
  "is_numeric_dtype Dt_int64 = True"
| "is_numeric_dtype Dt_float64 = True"
| "is_numeric_dtype Dt_bool = True"
| "is_numeric_dtype Dt_object = False"
| "is_numeric_dtype Dt_datetime64 = False"

section \<open>Outlier detection\<close>

text \<open>
  Arithmetic and comparison with NaN: an operation with a NaN operand is NaN, a
  comparison with a NaN operand is false.
\<close>

definition nan_sub :: "real option \<Rightarrow> real option \<Rightarrow> real option" where
  "nan_sub a b = (case (a, b) of (Some x, Some y) \<Rightarrow> Some (x - y) | _ \<Rightarrow> None)"

definition nan_add :: "real option \<Rightarrow> real option \<Rightarrow> real option" where
  "nan_add a b = (case (a, b) of (Some x, Some y) \<Rightarrow> Some (x + y) | _ \<Rightarrow> None)"

definition nan_scale :: "real \<Rightarrow> real option \<Rightarrow> real option" where
  "nan_scale m a = (case a of Some x \<Rightarrow> Some (m * x) | None \<Rightarrow> None)"

definition nan_lt :: "real option \<Rightarrow> real option \<Rightarrow> bool" where
  "nan_lt a b = (case (a, b) of (Some x, Some y) \<Rightarrow> x < y | _ \<Rightarrow> False)"

definition nan_gt :: "real option \<Rightarrow> real option \<Rightarrow> bool" where
  "nan_gt a b = (case (a, b) of (Some x, Some y) \<Rightarrow> x > y | _ \<Rightarrow> False)"

text \<open>The non-missing cells of a float array, in row order.\<close>

definition dropna :: "'a option list \<Rightarrow> 'a list" where
  "dropna xs = map the (filter (\<lambda>x. x \<noteq> None) xs)"

text \<open>
  \<^verbatim>\<open>Series.quantile(q)\<close> with the default \<^verbatim>\<open>interpolation='linear'\<close>: the missing
  cells are dropped, the rest sorted; the result lies at the virtual index
  \<open>(n - 1) * q\<close>, interpolated linearly between the two neighbouring cells. With no
  cell left the result is NaN.
\<close>

definition lerp_at :: "real list \<Rightarrow> real \<Rightarrow> real" where
  "lerp_at vs h =
     (let lo = nat \<lfloor>h\<rfloor>;
          hi = min (lo + 1) (length vs - 1);
          g = h - real lo
      in vs ! lo + g * (vs ! hi - vs ! lo))"

definition quantile :: "real option list \<Rightarrow> real \<Rightarrow> real option" where
  "quantile xs q =
     (let vs = sort (dropna xs)
      in if vs = [] then None else Some (lerp_at vs (real (length vs - 1) * q)))"

text \<open>
  Lines 174 to 177 of the script. The script's fence multiplier is the literal \<open>1.5\<close>;
  \<open>m\<close> stands for it so that the fences can be compared at other multipliers.
\<close>

definition q1 :: "real option list \<Rightarrow> real option" where
  "q1 xs = quantile xs (1/4)"

definition q3 :: "real option list \<Rightarrow> real option" where
  "q3 xs = quantile xs (3/4)"

definition iqr :: "real option list \<Rightarrow> real option" where
  "iqr xs = nan_sub (q3 xs) (q1 xs)"

definition lower_fence :: "real \<Rightarrow> real option list \<Rightarrow> real option" where
  "lower_fence m xs = nan_sub (q1 xs) (nan_scale m (iqr xs))"

definition upper_fence :: "real \<Rightarrow> real option list \<Rightarrow> real option" where
  "upper_fence m xs = nan_add (q3 xs) (nan_scale m (iqr xs))"

definition is_outlier :: "real \<Rightarrow> real option list \<Rightarrow> real option \<Rightarrow> bool" where
  "is_outlier m xs x \<longleftrightarrow> nan_lt x (lower_fence m xs) \<or> nan_gt x (upper_fence m xs)"

text \<open>The rows of the frame selected by the mask, read in the analysed column.\<close>

definition outliers_with :: "real \<Rightarrow> real option list \<Rightarrow> real option list" where
  "outliers_with m xs = filter (is_outlier m xs) xs"

definition outliers :: "real option list \<Rightarrow> real option list" where
  "outliers xs = outliers_with (3/2) xs"

section \<open>Descriptive statistics\<close>

text \<open>
  The six reductions of lines 161 to 170, each with pandas' default \<^verbatim>\<open>skipna=True\<close>:
  the missing cells are dropped first, and a reduction that has too few cells left is
  NaN. None of them raises on a numeric array. \<^verbatim>\<open>var\<close> and \<^verbatim>\<open>std\<close> divide by
  \<open>n - 1\<close>; \<^verbatim>\<open>skew\<close> and \<^verbatim>\<open>kurtosis\<close> are the bias-corrected sample estimates.
\<close>

definition mean :: "real option list \<Rightarrow> real option" where
  "mean xs =
     (let vs = dropna xs
      in if vs = [] then None else Some (sum_list vs / real (length vs)))"

definition median :: "real option list \<Rightarrow> real option" where
  "median xs =
     (let vs = sort (dropna xs); n = length vs
      in if n = 0 then None
         else if odd n then Some (vs ! (n div 2))
         else Some ((vs ! (n div 2 - 1) + vs ! (n div 2)) / 2))"

text \<open>The sum of the \<open>k\<close>-th powers of the deviations from the mean.\<close>

definition moment_sum :: "nat \<Rightarrow> real list \<Rightarrow> real" where
  "moment_sum k vs =
     (let m = sum_list vs / real (length vs) in sum_list (map (\<lambda>x. (x - m) ^ k) vs))"

definition var :: "real option list \<Rightarrow> real option" where
  "var xs =
     (let vs = dropna xs; n = length vs
      in if n \<le> 1 then None else Some (moment_sum 2 vs / real (n - 1)))"

definition std :: "real option list \<Rightarrow> real option" where
  "std xs = map_option sqrt (var xs)"

definition skew :: "real option list \<Rightarrow> real option" where
  "skew xs =
     (let vs = dropna xs; n = length vs; m2 = moment_sum 2 vs; m3 = moment_sum 3 vs
      in if n < 3 then None
         else if m2 = 0 then Some 0
         else Some ((real n * sqrt (real (n - 1)) / real (n - 2)) * (m3 / (m2 powr (3/2)))))"

definition kurtosis :: "real option list \<Rightarrow> real option" where
  "kurtosis xs =
     (let vs = dropna xs; n = length vs; m2 = moment_sum 2 vs; m4 = moment_sum 4 vs;
          adj = 3 * real (n - 1) ^ 2 / (real (n - 2) * real (n - 3));
          numerator = real n * real (n + 1) * real (n - 1) * m4;
          denominator = real (n - 2) * real (n - 3) * m2 ^ 2
      in if n < 4 then None
         else if denominator = 0 then Some 0
         else Some (numerator / denominator - adj))"

text \<open>\<^verbatim>\<open>round(x, 2)\<close>: to the nearest multiple of \<open>1/100\<close>, a tie to the even one;
  NaN stays NaN.\<close>

definition rint :: "real \<Rightarrow> int" where
  "rint x =
     (let f = \<lfloor>x\<rfloor>; d = x - of_int f
      in if d < 1/2 then f else if d > 1/2 then f + 1 else if even f then f else f + 1)"

definition round2 :: "real option \<Rightarrow> real option" where
  "round2 x = map_option (\<lambda>v. of_int (rint (v * 100)) / 100) x"

record numeric_summary =
  Mean :: "real option"
  Median :: "real option"
  Standard_Deviation :: "real option"
  Variance :: "real option"
  Skewness :: "real option"
  Kurtosis :: "real option"

definition metrics :: "real option list \<Rightarrow> numeric_summary" where
  "metrics xs =
     \<lparr> Mean = round2 (mean xs), Median = round2 (median xs),
       Standard_Deviation = round2 (std xs), Variance = round2 (var xs),
       Skewness = round2 (skew xs), Kurtosis = round2 (kurtosis xs) \<rparr>"

section \<open>Frequency tables\<close>

text \<open>
  A cell of any column, as a key of a frequency table.
\<close>

datatype scalar = IntV int | FloatV real | BoolV bool | StrV string | TimeV int

fun cells :: "series \<Rightarrow> scalar option list" where
  "cells (Int64 xs) = map (\<lambda>i. Some (IntV i)) xs"
| "cells (Float64 xs) = map (map_option FloatV) xs"
| "cells (Bool xs) = map (\<lambda>b. Some (BoolV b)) xs"
| "cells (Object xs) = map (map_option StrV) xs"
| "cells (Datetime64 xs) = map (map_option TimeV) xs"

text \<open>
  \<^verbatim>\<open>Series.value_counts()\<close> with its defaults (\<^verbatim>\<open>sort=True\<close>, \<^verbatim>\<open>ascending=False\<close>,
  \<^verbatim>\<open>dropna=True\<close>). pandas counts the non-missing cells in a hash table that keeps the
  keys in the order of their first appearance, and then sorts the counts with
  \<^verbatim>\<open>sort_values(ascending=False)\<close>. That sort reverses the entries, sorts them by
  ascending count with numpy's \<^verbatim>\<open>argsort\<close>, and reverses the result.

  The script takes pandas' default \<^verbatim>\<open>kind='quicksort'\<close>, which numpy does not promise
  to be stable: what it does with equal counts depends on the length of the array and
  on the build of numpy. The sort is therefore a parameter \<open>argsort\<close> of the model. All
  that every sort of numpy guarantees is \<open>sorts_counts\<close>: the result is a rearrangement
  of the entries, in ascending order of the counts.
\<close>

type_synonym 'a argsort = "('a \<times> nat) list \<Rightarrow> ('a \<times> nat) list"


definition unique :: "'a list \<Rightarrow> 'a list" where
  "unique vs = rev (remdups (rev vs))"

definition hash_counts :: "'a list \<Rightarrow> ('a \<times> nat) list" where
  "hash_counts vs = map (\<lambda>v. (v, count_list vs v)) (unique vs)"

definition sort_values_descending :: "'a argsort \<Rightarrow> ('a \<times> nat) list \<Rightarrow> ('a \<times> nat) list" where
  "sort_values_descending argsort kvs = rev (argsort (rev kvs))"

definition value_counts :: "'a argsort \<Rightarrow> 'a option list \<Rightarrow> ('a \<times> nat) list" where
  "value_counts argsort xs = sort_values_descending argsort (hash_counts (dropna xs))"

section \<open>Widgets and the plotting libraries\<close>

text \<open>
  \<^verbatim>\<open>st.selectbox(label, options)\<close> returns the option the user has picked, the first
  option when nothing was picked, and \<^verbatim>\<open>None\<close> when there is no option. The pick is
  an input of the model.
\<close>

definition selectbox :: "'a list \<Rightarrow> 'a option \<Rightarrow> 'a option" where
  "selectbox options pick =
     (case options of
        [] \<Rightarrow> None
      | d # _ \<Rightarrow> (case pick of
                    None \<Rightarrow> Some d
                  | Some p \<Rightarrow> if p \<in> set options then Some p else Some d))"

text \<open>
  The calls the script makes to seaborn and matplotlib, with the arguments that carry
  data. What such a call draws, and whether it raises, is decided by the library: the
  library is a parameter \<open>lib\<close> of the model, a function from the call to the drawn
  figure or to the exception raised.
\<close>

datatype plot_call =
    Sns_barplot "(scalar \<times> nat) list"
  | Sns_lineplot dataframe "string option"
  | Sns_histplot series
  | Sns_scatterplot dataframe "string option" "string option"
  | Sns_boxplot dataframe "string option"
  | Ax_pie "(scalar \<times> nat) list"
  | Sns_heatmap "string list" "real option list list" bool

type_synonym 'c plotlib = "plot_call \<Rightarrow> exn + 'c"

section \<open>Advanced analysis of one column\<close>

text \<open>The array as floats, for the dtypes \<^verbatim>\<open>is_numeric_dtype\<close> accepts.\<close>

fun numeric_view :: "series \<Rightarrow> real option list option" where
  "numeric_view (Int64 xs) = Some (map (\<lambda>i. Some (real_of_int i)) xs)"
| "numeric_view (Float64 xs) = Some xs"
| "numeric_view (Bool xs) = Some (map (\<lambda>b. Some (if b then 1 else 0)) xs)"
| "numeric_view (Object _) = None"
| "numeric_view (Datetime64 _) = None"

record outlier_report =
  outlier_count :: nat
  outlier_fraction :: real

text \<open>
  Lines 174 to 178. \<open>n\<close> is \<^verbatim>\<open>len(df)\<close>. The quantile of a bool array raises in
  numpy (the interpolation subtracts two booleans); the division of the f-string
  raises when the frame has no row.
\<close>

definition outlier_detection :: "nat \<Rightarrow> series \<Rightarrow> exn + outlier_report" where
  "outlier_detection n s =
     (case s of
        Bool _ \<Rightarrow> Inl (TypeError ''numpy boolean subtract, the `-` operator, is not supported'')
      | _ \<Rightarrow> (case numeric_view s of
                 None \<Rightarrow> Inl (TypeError ''unsupported operand'')
               | Some xs \<Rightarrow>
                   if n = 0 then Inl ZeroDivisionError
                   else Inr \<lparr> outlier_count = length (outliers xs),
                              outlier_fraction = real (length (outliers xs)) / real n \<rparr>))"

text \<open>
  Lines 153 to 193. The numeric branch shows the six metrics and then runs the outlier
  detection; the other branch shows the frequency table and then draws its pie chart.
  The second step of either branch may raise after the first was shown: the second
  component of the result is its figure or report, or the exception that leaves the script.
\<close>

datatype 'c analysis_result =
    Numerical_Analysis numeric_summary "exn + outlier_report"
  | Categorical_Analysis "(scalar \<times> nat) list" "exn + 'c"

definition analysis ::
  "scalar argsort \<Rightarrow> 'c plotlib \<Rightarrow> dataframe \<Rightarrow> string option \<Rightarrow> exn + 'c analysis_result" where
  "analysis argsort lib df pick =
     (let analysis_col = selectbox (columns df) pick
      in case getitem df analysis_col of
           Inl e \<Rightarrow> Inl e
         | Inr s \<Rightarrow>
             if is_numeric_dtype (dtype_of s)
             then (case numeric_view s of
                     None \<Rightarrow> Inl (TypeError ''unsupported operand'')
                   | Some xs \<Rightarrow>
                       Inr (Numerical_Analysis (metrics xs) (outlier_detection (len_df df) s)))
             else (let value_counts = value_counts argsort (cells s)
                   in Inr (Categorical_Analysis value_counts (lib (Ax_pie value_counts)))))"

text \<open>The exception that leaves the analysis section, if any.\<close>

definition analysis_raises :: "exn + 'c analysis_result \<Rightarrow> exn option" where
  "analysis_raises r =
     (case r of
        Inl e \<Rightarrow> Some e
      | Inr (Numerical_Analysis _ (Inl e)) \<Rightarrow> Some e
      | Inr (Categorical_Analysis _ (Inl e)) \<Rightarrow> Some e
      | _ \<Rightarrow> None)"

section \<open>Visualization\<close>











section \<open>Time series analysis\<close>

datatype freq = Freq_D | Freq_W | Freq_M | Freq_Q | Freq_Y

definition date_cols :: "dataframe \<Rightarrow> string list" where
  "date_cols df = columns (select_dtypes Datetime df)"

text \<open>
  Lines 196 to 208. The resampling itself is pandas' work and a parameter \<open>resample\<close>
  of the model: from the index column, the metric column and the frequency to the
  resampled means or the exception raised. The section runs only when the frame has a
  datetime column; nothing in it catches an exception.
\<close>

definition time_series ::
  "(series \<Rightarrow> series \<Rightarrow> freq option \<Rightarrow> exn + 'r) \<Rightarrow> dataframe \<Rightarrow>
     string option \<Rightarrow> string option \<Rightarrow> freq option \<Rightarrow> exn + 'r option" where
  "time_series resample df pick_date pick_metric pick_freq =
     (if length (date_cols df) > 0
      then (let date_col = selectbox (date_cols df) pick_date;
                metric_col = selectbox (columns (select_dtypes Number df)) pick_metric
            in case getitem df date_col of
                 Inl e \<Rightarrow> Inl e
               | Inr index \<Rightarrow>
                   (case getitem df metric_col of
                      Inl e \<Rightarrow> Inl e
                    | Inr metric \<Rightarrow>
                        (let resample_freq = selectbox [Freq_D, Freq_W, Freq_M, Freq_Q, Freq_Y] pick_freq
                         in case resample index metric resample_freq of
                              Inl e \<Rightarrow> Inl e
                            | Inr df_resampled \<Rightarrow> Inr (Some df_resampled))))
      else Inr None)"

section \<open>Vocabulary of the properties\<close>



text \<open>
  Two sorts for the examples. The first is an insertion sort, which keeps ties. The
  second is that insertion sort on a short array (up to 17 entries) and leaves the
  entries of equal count of a longer array in reverse order; both sort by count.
\<close>

definition insertion_argsort :: "'a argsort" where
  "insertion_argsort kvs = sort_key snd kvs"





text \<open>A plotting library that draws every call, for the examples.\<close>

definition blank_lib :: "unit plotlib" where
  "blank_lib call = Inr ()"

section \<open>Quantiles are monotone\<close>

lemma lerp_at_lower:
  assumes "sorted vs" "0 \<le> h" "h \<le> real (length vs - 1)" "vs \<noteq> []"
  shows "vs ! nat \<lfloor>h\<rfloor> \<le> lerp_at vs h"
proof -
  let ?k = "nat \<lfloor>h\<rfloor>"
  let ?hi = "min (?k + 1) (length vs - 1)"
  have k: "real ?k \<le> h" using assms(2) by simp
  have "\<lfloor>h\<rfloor> \<le> int (length vs - 1)" using assms(3) by (simp add: floor_le_iff) 
  then have kn: "?k \<le> length vs - 1" using assms(2) by linarith
  have "?k \<le> ?hi" "?hi < length vs" using assms(4) kn by (auto simp: min_def)
  then have "vs ! ?k \<le> vs ! ?hi" using assms(1) sorted_nth_mono by blast
  then have "0 \<le> (h - real ?k) * (vs ! ?hi - vs ! ?k)" using k by simp
  then show ?thesis by (simp add: lerp_at_def Let_def)
qed

lemma lerp_at_upper:
  assumes "sorted vs" "0 \<le> h" "h \<le> real (length vs - 1)" "vs \<noteq> []"
  shows "lerp_at vs h \<le> vs ! min (nat \<lfloor>h\<rfloor> + 1) (length vs - 1)"
proof -
  let ?k = "nat \<lfloor>h\<rfloor>"
  let ?hi = "min (?k + 1) (length vs - 1)"
  have k: "real ?k \<le> h" "h - real ?k \<le> 1" using assms(2) by (simp, linarith)
  have "\<lfloor>h\<rfloor> \<le> int (length vs - 1)" using assms(3) by (simp add: floor_le_iff) 
  then have kn: "?k \<le> length vs - 1" using assms(2) by linarith
  have "?k \<le> ?hi" "?hi < length vs" using assms(4) kn by (auto simp: min_def)
  then have d: "0 \<le> vs ! ?hi - vs ! ?k" using assms(1) sorted_nth_mono by fastforce
  have "(h - real ?k) * (vs ! ?hi - vs ! ?k) \<le> 1 * (vs ! ?hi - vs ! ?k)"
    using k(2) d by (rule mult_right_mono)
  then show ?thesis by (simp add: lerp_at_def Let_def)
qed

lemma lerp_at_mono:
  assumes "sorted vs" "vs \<noteq> []" "0 \<le> h" "h \<le> h'" "h' \<le> real (length vs - 1)"
  shows "lerp_at vs h \<le> lerp_at vs h'"
proof -
  let ?k = "nat \<lfloor>h\<rfloor>"
  let ?k' = "nat \<lfloor>h'\<rfloor>"
  have kk: "?k \<le> ?k'" using assms(4) by (simp add: floor_mono nat_mono)
  have "\<lfloor>h'\<rfloor> \<le> int (length vs - 1)" using assms(5) by (simp add: floor_le_iff) 
  then have kn: "?k' \<le> length vs - 1" using assms(3,4) by linarith
  show ?thesis
  proof (cases "?k = ?k'")
    case True
    let ?hi = "min (?k + 1) (length vs - 1)"
    have "?k \<le> ?hi" "?hi < length vs" using assms(2) kn kk by (auto simp: min_def)
    then have d: "0 \<le> vs ! ?hi - vs ! ?k" using assms(1) sorted_nth_mono by fastforce
    have "(h - real ?k) * (vs ! ?hi - vs ! ?k) \<le> (h' - real ?k) * (vs ! ?hi - vs ! ?k)"
      using assms(4) d by (intro mult_right_mono) simp_all
    then show ?thesis using True by (simp add: lerp_at_def Let_def)
  next
    case False
    then have lt: "?k + 1 \<le> ?k'" using kk by simp
    have "lerp_at vs h \<le> vs ! min (?k + 1) (length vs - 1)"
      using lerp_at_upper[OF assms(1,3) _ assms(2)] assms(4,5) by simp
    also have "\<dots> \<le> vs ! ?k'"
      using assms(1,2) lt kn by (intro sorted_nth_mono) (auto simp: min_def)
    also have "\<dots> \<le> lerp_at vs h'"
      using lerp_at_lower[OF assms(1) _ assms(5) assms(2)] assms(3,4) by simp
    finally show ?thesis .
  qed
qed

lemma quantile_mono:
  assumes "0 \<le> p" "p \<le> q" "q \<le> 1" "quantile xs p = Some a" "quantile xs q = Some b"
  shows "a \<le> b"
proof -
  let ?vs = "sort (dropna xs)"
  have ne: "?vs \<noteq> []" using assms(4) by (auto simp: quantile_def Let_def split: if_splits)
  have a: "a = lerp_at ?vs (real (length ?vs - 1) * p)"
    and b: "b = lerp_at ?vs (real (length ?vs - 1) * q)"
    using assms(4,5) ne by (auto simp: quantile_def Let_def)
  have "lerp_at ?vs (real (length ?vs - 1) * p) \<le> lerp_at ?vs (real (length ?vs - 1) * q)"
  proof (rule lerp_at_mono)
    show "sorted ?vs" by simp
    show "?vs \<noteq> []" by (rule ne)
    show "0 \<le> real (length ?vs - 1) * p" using assms(1) by simp
    show "real (length ?vs - 1) * p \<le> real (length ?vs - 1) * q"
      using assms(2) by (simp add: mult_left_mono)
    show "real (length ?vs - 1) * q \<le> real (length ?vs - 1)"
      using assms(3) by (simp add: mult_left_le)
  qed
  then show ?thesis using a b by simp
qed

lemma iqr_nonneg: "iqr xs = Some d \<Longrightarrow> 0 \<le> d"
proof -
  assume h: "iqr xs = Some d"
  then obtain a b where ab: "q1 xs = Some a" "q3 xs = Some b" "d = b - a"
    by (auto simp: iqr_def nan_sub_def split: option.splits)
  have "a \<le> b" using quantile_mono[of "1/4" "3/4" xs a b] ab by (simp add: q1_def q3_def)
  then show ?thesis using ab by simp
qed

lemma is_outlier_antimono:
  assumes "m1 \<le> m2" "is_outlier m2 xs x"
  shows "is_outlier m1 xs x"
proof (cases "iqr xs")
  case None
  then show ?thesis using assms(2)
    by (simp add: is_outlier_def lower_fence_def upper_fence_def nan_scale_def nan_sub_def nan_add_def nan_lt_def nan_gt_def split: option.splits)
next
  case (Some d)
  then have d: "0 \<le> d" by (rule iqr_nonneg)
  then have "m1 * d \<le> m2 * d" using assms(1) by (simp add: mult_right_mono)
  then show ?thesis using assms(2) Some
    by (auto simp add: is_outlier_def lower_fence_def upper_fence_def nan_scale_def nan_sub_def nan_add_def nan_lt_def nan_gt_def split: option.splits)
qed

lemma length_filter_mono:
  "(\<And>x. x \<in> set xs \<Longrightarrow> P x \<Longrightarrow> Q x) \<Longrightarrow> length (filter P xs) \<le> length (filter Q xs)"
  by (induction xs) auto


section \<open>The example column\<close>

lemma sort_cases: "sort (dropna [Some 1, Some 2, Some 3, Some 4, Some (100::real)]) = [1, 2, 3, 4, 100]"
  by (simp add: dropna_def)

lemma q1_cases: "q1 [Some 1, Some 2, Some 3, Some 4, Some 100] = Some 2"
  by (simp add: q1_def quantile_def sort_cases lerp_at_def)

lemma q3_cases: "q3 [Some 1, Some 2, Some 3, Some 4, Some 100] = Some 4"
  by (simp add: q3_def quantile_def sort_cases lerp_at_def)

lemma iqr_cases: "iqr [Some 1, Some 2, Some 3, Some 4, Some 100] = Some 2"
  by (simp add: iqr_def q1_cases q3_cases nan_sub_def)

lemma lower_fence_cases: "lower_fence m [Some 1, Some 2, Some 3, Some 4, Some 100] = Some (2 - m * 2)"
  by (simp add: lower_fence_def iqr_cases q1_cases nan_sub_def nan_scale_def)

lemma upper_fence_cases: "upper_fence m [Some 1, Some 2, Some 3, Some 4, Some 100] = Some (4 + m * 2)"
  by (simp add: upper_fence_def iqr_cases q3_cases nan_add_def nan_scale_def)

lemma is_outlier_cases:
  "is_outlier m [Some 1, Some 2, Some 3, Some 4, Some 100] x
     = (nan_lt x (Some (2 - m * 2)) \<or> nan_gt x (Some (4 + m * 2)))"
  by (simp add: is_outlier_def lower_fence_cases upper_fence_cases)

lemma outliers_cases: "outliers [Some 1, Some 2, Some 3, Some 4, Some 100] = [Some 100]"
  unfolding outliers_def outliers_with_def is_outlier_cases
  by (simp add: nan_lt_def nan_gt_def)

lemma outliers_cases_zero:
  "outliers_with 0 [Some 1, Some 2, Some 3, Some 4, Some 100] = [Some 1, Some 100]"
  unfolding outliers_with_def is_outlier_cases
  by (simp add: nan_lt_def nan_gt_def)

text \<open>
  C2. For the int64 column \<open>cases = [1, 2, 3, 4, 100]\<close> the quartiles are \<open>Q1 = 2\<close> and
  \<open>Q3 = 4\<close>, the interquartile range is \<open>2\<close>, the fences are \<open>-1\<close> and \<open>7\<close>, the only
  outlier is \<open>100\<close>, and the analysis of the column in a frame of these five rows reports
  one outlier, a fifth of the rows.
\<close>

theorem cases_outlier_report:
  "numeric_view (Int64 [1, 2, 3, 4, 100]) = Some [Some 1, Some 2, Some 3, Some 4, Some 100]
   \<and> q1 [Some 1, Some 2, Some 3, Some 4, Some 100] = Some 2
   \<and> q3 [Some 1, Some 2, Some 3, Some 4, Some 100] = Some 4
   \<and> iqr [Some 1, Some 2, Some 3, Some 4, Some 100] = Some 2
   \<and> lower_fence (3/2) [Some 1, Some 2, Some 3, Some 4, Some 100] = Some (- 1)
   \<and> upper_fence (3/2) [Some 1, Some 2, Some 3, Some 4, Some 100] = Some 7
   \<and> outliers [Some 1, Some 2, Some 3, Some 4, Some 100] = [Some 100]
   \<and> len_df [(''cases'', Int64 [1, 2, 3, 4, 100])] = 5
   \<and> outlier_detection (len_df [(''cases'', Int64 [1, 2, 3, 4, 100])]) (Int64 [1, 2, 3, 4, 100])
       = Inr \<lparr> outlier_count = 1, outlier_fraction = 1/5 \<rparr>
   \<and> analysis insertion_argsort blank_lib [(''cases'', Int64 [1, 2, 3, 4, 100])] None
       = Inr (Numerical_Analysis (metrics [Some 1, Some 2, Some 3, Some 4, Some 100])
                (Inr \<lparr> outlier_count = 1, outlier_fraction = 1/5 \<rparr>))"
  by (simp add: q1_cases q3_cases iqr_cases lower_fence_cases upper_fence_cases outliers_cases
      len_df_def outlier_detection_def analysis_def selectbox_def columns_def getitem_def)

text \<open>
  C4. For every numeric column, lowering the fence multiplier never lowers the number of
  outliers: for \<open>m1 \<le> m2\<close> the count at \<open>m1\<close> is at least the count at \<open>m2\<close>.
\<close>

theorem outlier_count_antimono:
  "m1 \<le> m2 \<Longrightarrow> length (outliers_with m2 xs) \<le> length (outliers_with m1 xs)"
  unfolding outliers_with_def by (rule length_filter_mono) (rule is_outlier_antimono)

theorem outlier_count_antimono_witness:
  "(0::real) \<le> 3/2
   \<and> length (outliers_with (3/2) [Some 1, Some 2, Some 3, Some 4, Some 100]) = 1
   \<and> length (outliers_with 0 [Some 1, Some 2, Some 3, Some 4, Some 100]) = 2
   \<and> length (outliers_with (3/2) [Some 1, Some 2, Some 3, Some 4, Some 100])
       \<le> length (outliers_with 0 [Some 1, Some 2, Some 3, Some 4, Some 100])"
  using outlier_count_antimono [of 0 "3/2" "[Some 1, Some 2, Some 3, Some 4, Some 100]"]
    outliers_cases outliers_cases_zero
  by (simp add: outliers_def)

text \<open>
  C9. The membership test of the outlier set is strict on both sides: the outliers are
  the cells strictly below the lower fence or strictly above the upper fence, and a cell
  equal to either fence is not among them.
\<close>

theorem outliers_strict:
  assumes "lower_fence (3/2) xs = Some lo" and "upper_fence (3/2) xs = Some hi"
  shows "outliers xs = filter (\<lambda>x. case x of None \<Rightarrow> False | Some v \<Rightarrow> v < lo \<or> hi < v) xs
         \<and> Some lo \<notin> set (outliers xs) \<and> Some hi \<notin> set (outliers xs)"
proof -
  have test: "is_outlier (3/2) xs x = (case x of None \<Rightarrow> False | Some v \<Rightarrow> v < lo \<or> hi < v)" for x
    using assms by (simp add: is_outlier_def nan_lt_def nan_gt_def split: option.splits)
  obtain d where d: "iqr xs = Some d"
    using assms(1) by (auto simp: lower_fence_def nan_sub_def nan_scale_def split: option.splits)
  then have "0 \<le> d" by (rule iqr_nonneg)
  moreover obtain a b where "q1 xs = Some a" "q3 xs = Some b" "d = b - a"
    using d by (auto simp: iqr_def nan_sub_def split: option.splits)
  ultimately have "lo = a - 3/2 * d" "hi = b + 3/2 * d" "a \<le> b" "0 \<le> d"
    using assms d
    by (simp_all add: lower_fence_def upper_fence_def nan_sub_def nan_add_def nan_scale_def)
  then have "lo \<le> hi" by linarith
  then have "\<not> is_outlier (3/2) xs (Some lo)" "\<not> is_outlier (3/2) xs (Some hi)"
    by (simp_all add: test)
  then have "Some lo \<notin> set (outliers xs)" "Some hi \<notin> set (outliers xs)"
    by (simp_all add: outliers_def outliers_with_def)
  moreover have "outliers xs = filter (\<lambda>x. case x of None \<Rightarrow> False | Some v \<Rightarrow> v < lo \<or> hi < v) xs"
    unfolding outliers_def outliers_with_def using test by presburger
  ultimately show ?thesis by blast
qed

lemma fences_witness:
  "lower_fence (3/2) [Some (- 1), Some 2, Some 2, Some 3, Some 4, Some 4, Some 7] = Some (- 1)
   \<and> upper_fence (3/2) [Some (- 1), Some 2, Some 2, Some 3, Some 4, Some 4, Some 7] = Some 7"
proof -
  have s: "sort (dropna [Some (- 1), Some 2, Some 2, Some 3, Some 4, Some 4, Some (7::real)])
             = [- 1, 2, 2, 3, 4, 4, 7]"
    by (simp add: dropna_def)
  have f1: "\<lfloor>3 / 2 :: real\<rfloor> = 1" and f3: "\<lfloor>9 / 2 :: real\<rfloor> = 4"
    by (simp_all add: floor_eq_iff)
  have a: "q1 [Some (- 1), Some 2, Some 2, Some 3, Some 4, Some 4, Some 7] = Some 2"
    by (simp add: q1_def quantile_def s lerp_at_def f1)
  have b: "q3 [Some (- 1), Some 2, Some 2, Some 3, Some 4, Some 4, Some 7] = Some 4"
    by (simp add: q3_def quantile_def s lerp_at_def f3)
  show ?thesis
    by (simp add: lower_fence_def upper_fence_def iqr_def a b nan_sub_def nan_add_def nan_scale_def)
qed

theorem outliers_strict_witness:
  "lower_fence (3/2) [Some (- 1), Some 2, Some 2, Some 3, Some 4, Some 4, Some 7] = Some (- 1)
   \<and> upper_fence (3/2) [Some (- 1), Some 2, Some 2, Some 3, Some 4, Some 4, Some 7] = Some 7
   \<and> outliers [Some (- 1), Some 2, Some 2, Some 3, Some 4, Some 4, Some 7] = []
   \<and> Some (- 1) \<notin> set (outliers [Some (- 1), Some 2, Some 2, Some 3, Some 4, Some 4, Some 7])
   \<and> Some 7 \<notin> set (outliers [Some (- 1), Some 2, Some 2, Some 3, Some 4, Some 4, Some 7])"
  using outliers_strict [of "[Some (- 1), Some 2, Some 2, Some 3, Some 4, Some 4, Some 7]" "- 1" 7]
    fences_witness
  by simp

section \<open>Frequency tables are ordered counts\<close>

































section \<open>The analysis dispatch\<close>

lemma numeric_view_numeric: "is_numeric_dtype (dtype_of s) \<longleftrightarrow> numeric_view s \<noteq> None"
  by (cases s) simp_all

lemma columns_select_dtypes:
  "c \<in> set (columns (select_dtypes k df)) \<longleftrightarrow> (\<exists>s. (c, s) \<in> set df \<and> in_class k (dtype_of s))"
  by (auto simp: columns_def select_dtypes_def image_iff)

lemma dates_value_counts:
  "value_counts insertion_argsort [Some (TimeV 0), Some (TimeV 86400), Some (TimeV 86400)]
     = [(TimeV 86400, 2), (TimeV 0, 1)]"
  by (simp add: value_counts_def sort_values_descending_def hash_counts_def unique_def dropna_def
      insertion_argsort_def)

text \<open>
  C10. The analysis of the selected column has two branches, not three: a column of a
  numeric dtype gets the six metrics and the outlier detection, every other column gets
  the frequency table and its pie chart. A datetime column is not numeric, so it gets
  the frequency table; its dtype only decides whether it is among the columns offered
  in the time-series section, which is skipped when the frame has no datetime column.
\<close>

theorem analysis_dispatch_binary:
  assumes "getitem df (selectbox (columns df) pick) = Inr s"
  shows "(is_numeric_dtype (dtype_of s) \<longrightarrow>
            (\<exists>xs. numeric_view s = Some xs
               \<and> analysis argsort lib df pick
                   = Inr (Numerical_Analysis (metrics xs) (outlier_detection (len_df df) s))))
         \<and> (\<not> is_numeric_dtype (dtype_of s) \<longrightarrow>
              analysis argsort lib df pick
                = Inr (Categorical_Analysis (value_counts argsort (cells s))
                         (lib (Ax_pie (value_counts argsort (cells s))))))
         \<and> (dtype_of s = Dt_datetime64 \<longrightarrow> \<not> is_numeric_dtype (dtype_of s))
         \<and> (\<forall>c. c \<in> set (date_cols df)
                \<longleftrightarrow> (\<exists>t. (c, t) \<in> set df \<and> dtype_of t = Dt_datetime64))
         \<and> (date_cols df = [] \<longrightarrow> time_series resample df pick_date pick_metric pick_freq = Inr None)"
proof -
  have n: "is_numeric_dtype (dtype_of s) \<longrightarrow>
            (\<exists>xs. numeric_view s = Some xs
               \<and> analysis argsort lib df pick
                   = Inr (Numerical_Analysis (metrics xs) (outlier_detection (len_df df) s)))"
    using assms by (auto simp: analysis_def Let_def numeric_view_numeric)
  have c: "\<not> is_numeric_dtype (dtype_of s) \<longrightarrow>
              analysis argsort lib df pick
                = Inr (Categorical_Analysis (value_counts argsort (cells s))
                         (lib (Ax_pie (value_counts argsort (cells s)))))"
    using assms by (simp add: analysis_def Let_def)
  have d: "\<forall>c. c \<in> set (date_cols df)
                \<longleftrightarrow> (\<exists>t. (c, t) \<in> set df \<and> dtype_of t = Dt_datetime64)"
    by (simp add: date_cols_def columns_select_dtypes)
  have t: "date_cols df = [] \<longrightarrow> time_series resample df pick_date pick_metric pick_freq = Inr None"
    by (simp add: time_series_def)
  show ?thesis using n c d t by simp
qed

theorem analysis_dispatch_binary_witness:
  "getitem [(''day'', Datetime64 [Some 0, Some 86400, Some 86400]), (''cases'', Int64 [1, 2, 3])]
       (selectbox (columns [(''day'', Datetime64 [Some 0, Some 86400, Some 86400]),
                            (''cases'', Int64 [1, 2, 3])]) (Some ''day''))
     = Inr (Datetime64 [Some 0, Some 86400, Some 86400])
   \<and> dtype_of (Datetime64 [Some 0, Some 86400, Some 86400]) = Dt_datetime64
   \<and> \<not> is_numeric_dtype (dtype_of (Datetime64 [Some 0, Some 86400, Some 86400]))
   \<and> analysis insertion_argsort blank_lib [(''day'', Datetime64 [Some 0, Some 86400, Some 86400]),
                          (''cases'', Int64 [1, 2, 3])] (Some ''day'')
       = Inr (Categorical_Analysis [(TimeV 86400, 2), (TimeV 0, 1)] (Inr ()))
   \<and> ''day'' \<in> set (date_cols [(''day'', Datetime64 [Some 0, Some 86400, Some 86400]),
                                  (''cases'', Int64 [1, 2, 3])])"
proof -
  have g: "getitem [(''day'', Datetime64 [Some 0, Some 86400, Some 86400]), (''cases'', Int64 [1, 2, 3])]
       (selectbox (columns [(''day'', Datetime64 [Some 0, Some 86400, Some 86400]),
                            (''cases'', Int64 [1, 2, 3])]) (Some ''day''))
     = Inr (Datetime64 [Some 0, Some 86400, Some 86400])"
    by (simp add: selectbox_def columns_def getitem_def)
  show ?thesis
    using analysis_dispatch_binary [OF g, where argsort = insertion_argsort and lib = blank_lib]
      g dates_value_counts
    by (simp add: blank_lib_def date_cols_def select_dtypes_def columns_def)
qed

section \<open>Empty and all-missing columns\<close>

lemma dropna_all_missing: "list_all (\<lambda>x. x = None) xs \<Longrightarrow> dropna xs = []"
  by (induction xs) (auto simp: dropna_def)

lemma metrics_all_missing:
  assumes "list_all (\<lambda>x. x = None) xs"
  shows "metrics xs = \<lparr> Mean = None, Median = None, Standard_Deviation = None,
                         Variance = None, Skewness = None, Kurtosis = None \<rparr>"
  using dropna_all_missing[OF assms]
  by (simp add: metrics_def mean_def median_def std_def var_def skew_def kurtosis_def round2_def)

lemma outliers_all_missing:
  assumes "list_all (\<lambda>x. x = None) xs"
  shows "outliers xs = []"
proof -
  have "quantile xs q = None" for q
    using dropna_all_missing[OF assms] by (simp add: quantile_def)
  then have "\<not> is_outlier (3/2) xs x" for x
    by (simp add: is_outlier_def lower_fence_def upper_fence_def iqr_def q1_def q3_def
        nan_sub_def nan_add_def nan_scale_def nan_lt_def nan_gt_def split: option.splits)
  then show ?thesis by (simp add: outliers_def outliers_with_def)
qed

text \<open>
  C5, as stated, fails: for a float column of two missing cells the analysis raises
  nothing. It shows six NaN metrics and reports no outlier, a fraction of zero.
\<close>

theorem all_missing_column_counterexample:
  "analysis insertion_argsort blank_lib [(''cases'', Float64 [None, None])] (Some ''cases'')
     = Inr (Numerical_Analysis
              \<lparr> Mean = None, Median = None, Standard_Deviation = None,
                Variance = None, Skewness = None, Kurtosis = None \<rparr>
              (Inr \<lparr> outlier_count = 0, outlier_fraction = 0 \<rparr>))
   \<and> analysis_raises (analysis insertion_argsort blank_lib [(''cases'', Float64 [None, None])] (Some ''cases'')) = None"
proof -
  have m: "list_all (\<lambda>x. x = None) [None, None :: real option]" by simp
  have "analysis insertion_argsort blank_lib [(''cases'', Float64 [None, None])] (Some ''cases'')
     = Inr (Numerical_Analysis
              \<lparr> Mean = None, Median = None, Standard_Deviation = None,
                Variance = None, Skewness = None, Kurtosis = None \<rparr>
              (Inr \<lparr> outlier_count = 0, outlier_fraction = 0 \<rparr>))"
    by (simp add: analysis_def selectbox_def columns_def getitem_def len_df_def
        outlier_detection_def metrics_all_missing[OF m] outliers_all_missing[OF m])
  then show ?thesis by (simp add: analysis_raises_def)
qed

text \<open>
  C5, amended. On a numeric column whose cells are all missing, in a frame of at least
  one row, the analysis fails nowhere: the six metrics are NaN, and the outlier
  detection reports no outlier and the fraction zero.
\<close>

theorem all_missing_column_analysis:
  assumes "getitem df (selectbox (columns df) pick) = Inr (Float64 xs)"
    and "list_all (\<lambda>x. x = None) xs"
    and "0 < len_df df"
  shows "analysis argsort lib df pick
           = Inr (Numerical_Analysis
                    \<lparr> Mean = None, Median = None, Standard_Deviation = None,
                      Variance = None, Skewness = None, Kurtosis = None \<rparr>
                    (Inr \<lparr> outlier_count = 0, outlier_fraction = 0 \<rparr>))
         \<and> analysis_raises (analysis argsort lib df pick) = None"
proof -
  have "analysis argsort lib df pick
           = Inr (Numerical_Analysis
                    \<lparr> Mean = None, Median = None, Standard_Deviation = None,
                      Variance = None, Skewness = None, Kurtosis = None \<rparr>
                    (Inr \<lparr> outlier_count = 0, outlier_fraction = 0 \<rparr>))"
    using assms(1,3)
    by (simp add: analysis_def Let_def outlier_detection_def
        metrics_all_missing[OF assms(2)] outliers_all_missing[OF assms(2)])
  then show ?thesis by (simp add: analysis_raises_def)
qed

theorem all_missing_column_analysis_witness:
  "getitem [(''cases'', Float64 [None, None]), (''region'', Object [Some ''A'', Some ''B''])]
       (selectbox (columns [(''cases'', Float64 [None, None]),
                            (''region'', Object [Some ''A'', Some ''B''])]) None)
     = Inr (Float64 [None, None])
   \<and> list_all (\<lambda>x. x = None) [None, None :: real option]
   \<and> 0 < len_df [(''cases'', Float64 [None, None]), (''region'', Object [Some ''A'', Some ''B''])]
   \<and> analysis insertion_argsort blank_lib
        [(''cases'', Float64 [None, None]), (''region'', Object [Some ''A'', Some ''B''])] None
       = Inr (Numerical_Analysis
                \<lparr> Mean = None, Median = None, Standard_Deviation = None,
                  Variance = None, Skewness = None, Kurtosis = None \<rparr>
                (Inr \<lparr> outlier_count = 0, outlier_fraction = 0 \<rparr>))"
proof -
  have g: "getitem [(''cases'', Float64 [None, None]), (''region'', Object [Some ''A'', Some ''B''])]
       (selectbox (columns [(''cases'', Float64 [None, None]),
                            (''region'', Object [Some ''A'', Some ''B''])]) None)
     = Inr (Float64 [None, None])"
    by (simp add: selectbox_def columns_def getitem_def)
  have m: "list_all (\<lambda>x. x = None) [None, None :: real option]" by simp
  have l: "0 < len_df [(''cases'', Float64 [None, None]), (''region'', Object [Some ''A'', Some ''B''])]"
    by (simp add: len_df_def)
  show ?thesis
    using all_missing_column_analysis
        [OF g m l, where argsort = insertion_argsort and lib = blank_lib] g m l
    by simp
qed

section \<open>Column classes\<close>

lemma in_class_exclusive: "in_class c d \<Longrightarrow> in_class c' d \<Longrightarrow> c = c'"
  by (cases c; cases c') auto

lemma in_class_total_iff: "(\<exists>c. in_class c d) \<longleftrightarrow> d \<noteq> Dt_bool"
proof (cases d)
  case Dt_int64
  then have "in_class Number d" by simp
  then show ?thesis using Dt_int64 by blast
next
  case Dt_float64
  then have "in_class Number d" by simp
  then show ?thesis using Dt_float64 by blast
next
  case Dt_bool
  have "\<not> in_class c Dt_bool" for c by (cases c) simp_all
  then show ?thesis using Dt_bool by simp
next
  case Dt_object
  then have "in_class ObjectClass d" by simp
  then show ?thesis using Dt_object by blast
next
  case Dt_datetime64
  then have "in_class Datetime d" by simp
  then show ?thesis using Dt_datetime64 by blast
qed

text \<open>
  C1, as stated, fails: a bool column is in none of the three classes the script selects
  by, although the analysis dispatch takes it for numeric.
\<close>

theorem bool_column_unclassified:
  "select_dtypes Number [(''flag'', Bool [True, False])] = []
   \<and> select_dtypes ObjectClass [(''flag'', Bool [True, False])] = []
   \<and> select_dtypes Datetime [(''flag'', Bool [True, False])] = []
   \<and> is_numeric_dtype (dtype_of (Bool [True, False]))"
  by (simp add: select_dtypes_def)

text \<open>
  C1, amended. The class of a column is read off its dtype. No dtype is in two of the
  three classes, and no column is selected for two of them; a dtype is in one of the
  classes exactly when it is not bool; the dtypes the analysis dispatch takes for numeric
  are those of the class of numbers and bool.
\<close>

theorem dtype_classes_exclusive:
  "(in_class c d \<and> in_class c' d \<longrightarrow> c = c')
   \<and> ((\<exists>k. in_class k d) \<longleftrightarrow> d \<noteq> Dt_bool)
   \<and> (is_numeric_dtype d \<longleftrightarrow> in_class Number d \<or> d = Dt_bool)
   \<and> ((name, s) \<in> set (select_dtypes c df) \<and> (name, s) \<in> set (select_dtypes c' df) \<longrightarrow> c = c')"
proof -
  have "is_numeric_dtype d \<longleftrightarrow> in_class Number d \<or> d = Dt_bool"
    by (cases d) simp_all
  moreover have "(name, s) \<in> set (select_dtypes c df) \<and> (name, s) \<in> set (select_dtypes c' df)
      \<longrightarrow> c = c'"
    using in_class_exclusive[of c "dtype_of s" c'] by (auto simp: select_dtypes_def)
  ultimately show ?thesis using in_class_exclusive[of c d c'] in_class_total_iff[of d] by blast
qed

theorem dtype_classes_exclusive_witness:
  "in_class Number Dt_float64 \<and> (\<exists>k. in_class k Dt_float64) \<and> Dt_float64 \<noteq> Dt_bool
   \<and> is_numeric_dtype Dt_float64
   \<and> (''x'', Float64 [Some 1]) \<in> set (select_dtypes Number [(''x'', Float64 [Some 1])])"
  using dtype_classes_exclusive [of Number Dt_float64 Number "''x''" "Float64 [Some 1]"
      "[(''x'', Float64 [Some 1])]"]
  by (simp add: select_dtypes_def)

section \<open>Heatmap\<close>



















section \<open>Column selection for a chart\<close>






section \<open>Exceptions of the analysis section\<close>

text \<open>
  C8. In the analysis section nothing catches an exception: for a frame whose column is
  bool the analysis shows the metrics, the quantile then raises \<^verbatim>\<open>TypeError\<close>, and the
  exception leaves the script.
\<close>

theorem bool_column_analysis_raises:
  "analysis_raises (analysis insertion_argsort blank_lib [(''vaccinated'', Bool [True, False])] None)
     = Some (TypeError ''numpy boolean subtract, the `-` operator, is not supported'')
   \<and> is_numeric_dtype (dtype_of (Bool [True, False]))
   \<and> outlier_detection 2 (Bool [True, False])
       = Inl (TypeError ''numpy boolean subtract, the `-` operator, is not supported'')"
  by (simp add: analysis_def selectbox_def columns_def getitem_def analysis_raises_def
      outlier_detection_def len_df_def)

end
